theory Spec2Isabelle
  imports Main "HOL-Library.Word"
begin

section \<open>drltrace: the library tracing client (clients/drltrace/drltrace.c)\<close>

text \<open>
  The client records calls to exported library routines. It wraps every export of
  every module but the main executable when the module is loaded, unwraps them when
  the module is unloaded, and prints one line per intercepted call.

  The instrumentation platform (DynamoRIO, drmgr, drwrap) is outside the file. What the
  client reads from it is a record of functions, \<open>platform\<close>; what the client changes
  (its own globals, the wrap table of drwrap, the diagnostic stream) is a record,
  \<open>client_state\<close>, passed through every function and returned updated.
\<close>

subsection \<open>Data\<close>

text \<open>
  \<open>app_pc\<close> is a pointer into the application. The client compares such pointers with
  each other and with \<open>NULL\<close> and does no arithmetic on them, so the width of the
  pointer plays no part and a natural number stands for the address.
\<close>

type_synonym app_pc = nat

abbreviation NULL :: app_pc where
  "NULL \<equiv> 0"

text \<open>
  \<open>module_data_t\<close>, as far as the client reads it: the base address \<open>start\<close>, the
  opaque \<open>handle\<close> given to the export iterator, and what
  \<open>dr_module_preferred_name\<close> returns for the module, a \<open>const char *\<close> that is
  \<open>None\<close> when the call returns \<open>NULL\<close>.
\<close>

record module_data =
  start :: app_pc
  handle :: nat
  dr_module_preferred_name :: "string option"

text \<open>\<open>dr_symbol_export_t\<close>: one entry of a module's export table.\<close>

record dr_symbol_export =
  name :: string
  addr :: app_pc
  is_code :: bool
  is_indirect_code :: bool

text \<open>\<open>drltrace_options_t\<close>.\<close>

record drltrace_options =
  logdir :: string
  only_from_app :: bool

text \<open>
  The wrap context of one intercepted call: \<open>drwrap_get_func\<close> is the address of the
  wrapped function, \<open>drwrap_get_retaddr\<close> the outcome of reading the return address,
  \<open>None\<close> when the read faults.
\<close>

record wrapcxt =
  drwrap_get_func :: app_pc
  drwrap_get_retaddr :: "app_pc option"

text \<open>
  What is written to \<open>STDERR\<close>. The line of \<open>lib_entry\<close> is kept as the text it
  prints. The three \<open>NOTIFY\<close> messages are kept with their arguments: two of them print
  pointers with the format \<open>PFX\<close>, a macro that is not in the file.
\<close>

datatype printed =
    Trace_line string
  | Note_indirected string app_pc app_pc
  | Note_wrapping "string option" string app_pc
  | Note_unrecognized string

text \<open>
  The requests the client makes to the platform that act on the application: calling
  an indirect export, asking drwrap to wrap or to unwrap an address.
\<close>

datatype request =
    Call_export app_pc
  | Wrap_ex app_pc string
  | Unwrap app_pc

text \<open>
  The platform as the client reads it.
  \<^item> \<open>linux\<close>: the file is compiled with \<open>LINUX\<close> defined.
  \<^item> \<open>debug\<close>: it is compiled with \<open>DEBUG\<close> defined, so that \<open>IF_DEBUG\<close> keeps its
    argument and \<open>ASSERT\<close> checks.
  \<^item> \<open>strict\<close>: a failed \<open>USAGE_CHECK\<close> is fatal.
  \<^item> \<open>dr_lookup_module\<close>: the module that contains an address, if any.
  \<^item> \<open>dr_symbol_exports\<close>: the export table behind a module handle, in the order of the
    export iterator.
  \<^item> \<open>call_export\<close>: the result of calling the code at an address inside
    \<open>DR_TRY_EXCEPT\<close>; \<open>None\<close> when the call faults.
  \<^item> \<open>dr_sscanf_u\<close>: what \<open>dr_sscanf(token, "%u", &verbose)\<close> stores; \<open>None\<close> when
    it converts nothing.
\<close>

record platform =
  linux :: bool
  debug :: bool
  strict :: bool
  dr_lookup_module :: "app_pc \<Rightarrow> module_data option"
  dr_symbol_exports :: "nat \<Rightarrow> dr_symbol_export list"
  call_export :: "app_pc \<Rightarrow> app_pc option"
  dr_sscanf_u :: "string \<Rightarrow> 32 word option"

text \<open>
  The state the client changes: its globals \<open>verbose\<close>, \<open>options\<close> and \<open>exe_start\<close>,
  the wrap table of drwrap for the callback pair \<open>(lib_entry, NULL)\<close> (wrapped address
  to user data, here the export's name), the diagnostic stream, and the requests made
  so far.
\<close>

record client_state =
  verbose :: "32 word"
  options :: drltrace_options
  exe_start :: app_pc
  wrap_table :: "app_pc \<rightharpoonup> string"
  stderr :: "printed list"
  requests :: "request list"

datatype error =
    Assert_failed string
  | Usage_error string

text \<open>
  A function that can abort the process returns \<open>Inl\<close> with the error and the state at
  the abort, or \<open>Inr\<close> with the state it leaves.
\<close>

type_synonym outcome = "(error \<times> client_state) + client_state"

subsection \<open>Macros\<close>

definition STDERR_PREFIX :: string where
  "STDERR_PREFIX = ''~~~~ ''"

definition dr_fprintf :: "printed \<Rightarrow> client_state \<Rightarrow> client_state" where
  "dr_fprintf out s = s\<lparr>stderr := stderr s @ [out]\<rparr>"

definition NOTIFY :: "32 word \<Rightarrow> printed \<Rightarrow> client_state \<Rightarrow> client_state" where
  "NOTIFY level out s = (if verbose s \<ge> level then dr_fprintf out s else s)"

text \<open>
  Modelled from the spec: \<open>ASSERT\<close>, a macro of \<open>../common/utils.h\<close>, which is not in
  the file. The spec has a failed hook request "abort the process in debug/diagnostic
  builds, while being silently best-effort in optimized builds": the macro aborts when
  its condition is false in a build with \<open>debug\<close>, and is empty otherwise.
\<close>

definition ASSERT :: "platform \<Rightarrow> bool \<Rightarrow> string \<Rightarrow> client_state \<Rightarrow> outcome" where
  "ASSERT env x msg s = (if debug env \<and> \<not> x then Inl (Assert_failed msg, s) else Inr s)"

text \<open>
  Modelled from the spec: \<open>USAGE_CHECK\<close>, a macro of the same header. The spec has a
  configuration error "fatal in strict/debug mode, best-effort-ignored in release mode":
  a failed check aborts when the platform is \<open>strict\<close> and does nothing otherwise.
\<close>

definition USAGE_CHECK :: "platform \<Rightarrow> bool \<Rightarrow> string \<Rightarrow> client_state \<Rightarrow> outcome" where
  "USAGE_CHECK env x msg s = (if strict env \<and> \<not> x then Inl (Usage_error msg, s) else Inr s)"

subsection \<open>Library entry wrapping\<close>

text \<open>
  Lines 121 to 131 of \<open>lib_entry\<close>: look the wrapped function's module up, take its
  preferred name, and print the line. \<open>trace_line\<close> is the text of the
  \<open>dr_fprintf\<close> with the format \<open>"%s%s%s%s\n"\<close>.
\<close>

definition trace_line :: "platform \<Rightarrow> app_pc \<Rightarrow> string \<Rightarrow> string" where
  "trace_line env func nm =
     (let modname = (case dr_lookup_module env func of
                       None \<Rightarrow> None
                     | Some modl \<Rightarrow> dr_module_preferred_name modl)
      in STDERR_PREFIX
         @ (case modname of None \<Rightarrow> '''' | Some n \<Rightarrow> n)
         @ (case modname of None \<Rightarrow> '''' | Some n \<Rightarrow> ''!'')
         @ nm @ [CHR 0x0A])"

definition lib_entry_print :: "platform \<Rightarrow> app_pc \<Rightarrow> string \<Rightarrow> client_state \<Rightarrow> client_state" where
  "lib_entry_print env func nm s = dr_fprintf (Trace_line (trace_line env func nm)) s"

text \<open>
  The \<open>DR_TRY_EXCEPT\<close> of \<open>lib_entry\<close>: \<open>retaddr\<close> starts as \<open>NULL\<close>, takes the value
  read when the read succeeds, and is set to \<open>NULL\<close> when it faults.
\<close>

definition guarded_retaddr :: "wrapcxt \<Rightarrow> app_pc" where
  "guarded_retaddr cxt = (case drwrap_get_retaddr cxt of None \<Rightarrow> NULL | Some a \<Rightarrow> a)"

text \<open>
  \<open>lib_entry\<close>. Each \<open>return\<close> of the filter leaves the state as it is; every other
  path reaches the print.
\<close>

definition lib_entry :: "platform \<Rightarrow> wrapcxt \<Rightarrow> string \<Rightarrow> client_state \<Rightarrow> client_state" where
  "lib_entry env cxt user_data s =
     (let nm = user_data;
          func = drwrap_get_func cxt
      in if only_from_app (options s) then
           (let retaddr = guarded_retaddr cxt
            in if retaddr \<noteq> NULL then
                 (case dr_lookup_module env retaddr of
                    Some modl \<Rightarrow>
                      (let from_exe = (start modl = exe_start s)
                       in if \<not> from_exe then s else lib_entry_print env func nm s)
                  | None \<Rightarrow> lib_entry_print env func nm s)
               else s)
         else lib_entry_print env func nm s)"

subsection \<open>Wrapping and unwrapping the exports of a module\<close>

text \<open>
  Modelled from the spec: \<open>drwrap_wrap_ex\<close> and \<open>drwrap_unwrap\<close>, the hook service
  of the drwrap extension, whose code is not in the file. The spec gives the service as
  "hook install(address, callback, contextData) / uninstall(address, callback) with
  boolean success" and rules out a "double-install for the same address while already
  hooked". The client always passes the same callback pair, so the table is keyed by
  the address alone. Installing at an address that has no hook stores the user data
  and succeeds; installing at an address that has one fails and leaves the table as it
  is. Removing at an address that has a hook removes it and succeeds; removing where
  there is none fails. Every request is recorded.
\<close>

definition drwrap_wrap_ex :: "app_pc \<Rightarrow> string \<Rightarrow> client_state \<Rightarrow> bool \<times> client_state" where
  "drwrap_wrap_ex func user_data s =
     (let s' = s\<lparr>requests := requests s @ [Wrap_ex func user_data]\<rparr>
      in case wrap_table s func of
           Some d \<Rightarrow> (False, s')
         | None \<Rightarrow> (True, s'\<lparr>wrap_table := (wrap_table s)(func \<mapsto> user_data)\<rparr>))"

definition drwrap_unwrap :: "app_pc \<Rightarrow> client_state \<Rightarrow> bool \<times> client_state" where
  "drwrap_unwrap func s =
     (let s' = s\<lparr>requests := requests s @ [Unwrap func]\<rparr>
      in case wrap_table s func of
           None \<Rightarrow> (False, s')
         | Some d \<Rightarrow> (True, s'\<lparr>wrap_table := (wrap_table s)(func := None)\<rparr>))"

text \<open>
  Lines 141 to 157 of \<open>iterate_exports\<close>: the value of \<open>func\<close> for one export. A
  direct code export gives its address. An indirect code export is called, under
  \<open>LINUX\<close> only, inside \<open>DR_TRY_EXCEPT\<close>: \<open>func\<close> is what the call returns, or
  \<open>NULL\<close> when it faults, and the \<open>NOTIFY\<close> follows in both cases. Anything else
  leaves \<open>func\<close> at \<open>NULL\<close>.
\<close>

definition resolve_export :: "platform \<Rightarrow> dr_symbol_export \<Rightarrow> client_state \<Rightarrow> app_pc \<times> client_state" where
  "resolve_export env symb s =
     (if is_code symb then (addr symb, s)
      else if linux env \<and> is_indirect_code symb then
        (let s1 = s\<lparr>requests := requests s @ [Call_export (addr symb)]\<rparr>;
             func = (case call_export env (addr symb) of Some f \<Rightarrow> f | None \<Rightarrow> NULL)
         in (func, NOTIFY 1 (Note_indirected (name symb) (addr symb) func) s1))
      else (NULL, s))"

text \<open>The body of the \<open>while\<close> loop of \<open>iterate_exports\<close>, for one export.\<close>

definition iterate_exports_body ::
    "platform \<Rightarrow> module_data \<Rightarrow> bool \<Rightarrow> dr_symbol_export \<Rightarrow> client_state \<Rightarrow> outcome" where
  "iterate_exports_body env info add symb s =
     (case resolve_export env symb s of
        (func, s1) \<Rightarrow>
          if func \<noteq> NULL then
            (if add then
               (case drwrap_wrap_ex func (name symb) s1 of
                  (ok, s2) \<Rightarrow>
                    (case ASSERT env ok ''wrap request failed'' s2 of
                       Inl e \<Rightarrow> Inl e
                     | Inr s3 \<Rightarrow>
                         Inr (NOTIFY 2 (Note_wrapping (dr_module_preferred_name info)
                                          (name symb) func) s3)))
             else
               (case drwrap_unwrap func s1 of
                  (ok, s2) \<Rightarrow> ASSERT env ok ''unwrap request failed'' s2))
          else Inr s1)"

text \<open>The loop over the exports the iterator yields; an abort ends it.\<close>

fun iterate_exports_loop ::
    "platform \<Rightarrow> module_data \<Rightarrow> bool \<Rightarrow> dr_symbol_export list \<Rightarrow> client_state \<Rightarrow> outcome" where
  "iterate_exports_loop env info add [] s = Inr s"
| "iterate_exports_loop env info add (symb # symbs) s =
     (case iterate_exports_body env info add symb s of
        Inl e \<Rightarrow> Inl e
      | Inr s' \<Rightarrow> iterate_exports_loop env info add symbs s')"

definition iterate_exports :: "platform \<Rightarrow> module_data \<Rightarrow> bool \<Rightarrow> client_state \<Rightarrow> outcome" where
  "iterate_exports env info add s =
     iterate_exports_loop env info add (dr_symbol_exports env (handle info)) s"

definition event_module_load :: "platform \<Rightarrow> module_data \<Rightarrow> bool \<Rightarrow> client_state \<Rightarrow> outcome" where
  "event_module_load env info loaded s =
     (if start info \<noteq> exe_start s then iterate_exports env info True s else Inr s)"

definition event_module_unload :: "platform \<Rightarrow> module_data \<Rightarrow> client_state \<Rightarrow> outcome" where
  "event_module_unload env info s =
     (if start info \<noteq> exe_start s then iterate_exports env info False s else Inr s)"

subsection \<open>Options\<close>

text \<open>
  \<open>options_init\<close>: the \<open>for\<close> loop over the tokens of the option string. The string
  is given as the list of tokens that \<open>dr_get_token\<close> has yet to hand out, one per
  call; \<open>dr_get_token\<close> returns \<open>NULL\<close> when the list is used up. Where a token is
  found the \<open>USAGE_CHECK\<close> on \<open>s != NULL\<close> passes. When the argument of \<open>-logdir\<close> or
  \<open>-verbose\<close> is missing, \<open>s\<close> is \<open>NULL\<close> after the \<open>USAGE_CHECK\<close>; the loop then
  calls \<open>dr_get_token\<close> on \<open>NULL\<close>, which is taken to return \<open>NULL\<close>, and ends.
\<close>

fun options_init :: "platform \<Rightarrow> string list \<Rightarrow> client_state \<Rightarrow> outcome" where
  "options_init env [] s = Inr s"
| "options_init env (token # rest) s =
     (if token = ''-logdir'' then
        (case rest of
           [] \<Rightarrow> USAGE_CHECK env False ''missing logdir path'' s
         | path # rest' \<Rightarrow>
             options_init env rest' (s\<lparr>options := (options s)\<lparr>logdir := path\<rparr>\<rparr>))
      else if token = ''-only_from_app'' then
        options_init env rest (s\<lparr>options := (options s)\<lparr>only_from_app := True\<rparr>\<rparr>)
      else if token = ''-verbose'' then
        (case rest of
           [] \<Rightarrow> USAGE_CHECK env False ''missing -verbose number'' s
         | num # rest' \<Rightarrow>
             (case dr_sscanf_u env num of
                Some v \<Rightarrow> options_init env rest' (s\<lparr>verbose := v\<rparr>)
              | None \<Rightarrow>
                  (case USAGE_CHECK env False ''invalid -verbose number'' s of
                     Inl e \<Rightarrow> Inl e
                   | Inr s' \<Rightarrow> options_init env rest' s')))
      else
        (case USAGE_CHECK env False ''invalid option''
                (NOTIFY 0 (Note_unrecognized token) s) of
           Inl e \<Rightarrow> Inl e
         | Inr s' \<Rightarrow> options_init env rest s'))"

subsection \<open>What the statements below speak about\<close>

text \<open>
  The hook table an outcome ends with, and with which error if it is an abort.
\<close>

definition hooks_of :: "outcome \<Rightarrow> (error \<times> (app_pc \<rightharpoonup> string)) + (app_pc \<rightharpoonup> string)" where
  "hooks_of r = (case r of Inl (e, s) \<Rightarrow> Inl (e, wrap_table s) | Inr s \<Rightarrow> Inr (wrap_table s))"

text \<open>The value \<open>func\<close> takes for an export: the first component of \<open>resolve_export\<close>.\<close>

definition resolved_func :: "platform \<Rightarrow> dr_symbol_export \<Rightarrow> app_pc" where
  "resolved_func env symb =
     (if is_code symb then addr symb
      else if linux env \<and> is_indirect_code symb then
        (case call_export env (addr symb) of Some f \<Rightarrow> f | None \<Rightarrow> NULL)
      else NULL)"

text \<open>
  Load, unload, load, unload of one module, stopping at the first abort. Every event
  enumerates the exports and calls the indirect ones again, so each event is given the
  platform as it is when the event is delivered.
\<close>

definition load_unload ::
    "platform \<Rightarrow> platform \<Rightarrow> module_data \<Rightarrow> client_state \<Rightarrow> outcome" where
  "load_unload env1 env2 info s =
     (case event_module_load env1 info True s of
        Inl e \<Rightarrow> Inl e
      | Inr s' \<Rightarrow> event_module_unload env2 info s')"

definition load_unload_twice ::
    "platform \<Rightarrow> platform \<Rightarrow> platform \<Rightarrow> platform \<Rightarrow> module_data \<Rightarrow> client_state
       \<Rightarrow> outcome" where
  "load_unload_twice env1 env2 env3 env4 info s =
     (case load_unload env1 env2 info s of
        Inl e \<Rightarrow> Inl e
      | Inr s' \<Rightarrow> load_unload env3 env4 info s')"

subsection \<open>A concrete platform\<close>

text \<open>
  The scenario of the spec, extended: the executable at \<open>0x400000\<close> with a direct
  export \<open>main\<close>; module \<open>M\<close> at \<open>0x1000\<close> with a direct export \<open>foo\<close> at
  \<open>0x1010\<close>, an indirect export \<open>bad\<close> whose call faults, a data symbol \<open>dat\<close> and
  an indirect export \<open>bar\<close> at \<open>0x1020\<close> that resolves to \<open>0x1030\<close>; module \<open>N\<close> at \<open>0x2000\<close> with a direct export \<open>baz\<close> at
  \<open>0x2030\<close>; a module without any name at \<open>0x3000\<close>; and module \<open>P\<close> at \<open>0x5000\<close>
  whose indirect export \<open>sel\<close> resolves to \<open>0x2030\<close>, the entry of \<open>baz\<close> in \<open>N\<close>.
\<close>

definition ex_exe :: module_data where
  "ex_exe = \<lparr>start = 0x400000, handle = 0, dr_module_preferred_name = Some ''app''\<rparr>"

definition ex_M :: module_data where
  "ex_M = \<lparr>start = 0x1000, handle = 1, dr_module_preferred_name = Some ''M''\<rparr>"

definition ex_N :: module_data where
  "ex_N = \<lparr>start = 0x2000, handle = 2, dr_module_preferred_name = Some ''N''\<rparr>"

definition ex_anon :: module_data where
  "ex_anon = \<lparr>start = 0x3000, handle = 3, dr_module_preferred_name = None\<rparr>"

definition ex_P :: module_data where
  "ex_P = \<lparr>start = 0x5000, handle = 5, dr_module_preferred_name = Some ''P''\<rparr>"

definition ex_main :: dr_symbol_export where
  "ex_main = \<lparr>name = ''main'', addr = 0x400100, is_code = True, is_indirect_code = False\<rparr>"

definition ex_foo :: dr_symbol_export where
  "ex_foo = \<lparr>name = ''foo'', addr = 0x1010, is_code = True, is_indirect_code = False\<rparr>"

definition ex_bar :: dr_symbol_export where
  "ex_bar = \<lparr>name = ''bar'', addr = 0x1020, is_code = False, is_indirect_code = True\<rparr>"

definition ex_dat :: dr_symbol_export where
  "ex_dat = \<lparr>name = ''dat'', addr = 0x1040, is_code = False, is_indirect_code = False\<rparr>"

definition ex_bad :: dr_symbol_export where
  "ex_bad = \<lparr>name = ''bad'', addr = 0x1050, is_code = False, is_indirect_code = True\<rparr>"

definition ex_baz :: dr_symbol_export where
  "ex_baz = \<lparr>name = ''baz'', addr = 0x2030, is_code = True, is_indirect_code = False\<rparr>"

definition ex_sel :: dr_symbol_export where
  "ex_sel = \<lparr>name = ''sel'', addr = 0x5020, is_code = False, is_indirect_code = True\<rparr>"

definition ex_lookup :: "app_pc \<Rightarrow> module_data option" where
  "ex_lookup pc =
     (if 0x400000 \<le> pc \<and> pc < 0x500000 then Some ex_exe
      else if 0x1000 \<le> pc \<and> pc < 0x2000 then Some ex_M
      else if 0x2000 \<le> pc \<and> pc < 0x3000 then Some ex_N
      else if 0x3000 \<le> pc \<and> pc < 0x4000 then Some ex_anon
      else if 0x5000 \<le> pc \<and> pc < 0x6000 then Some ex_P
      else None)"

definition ex_exports :: "nat \<Rightarrow> dr_symbol_export list" where
  "ex_exports h =
     (if h = 0 then [ex_main]
      else if h = 1 then [ex_foo, ex_bad, ex_dat, ex_bar]
      else if h = 2 then [ex_baz]
      else if h = 5 then [ex_sel]
      else [])"

definition ex_call :: "app_pc \<Rightarrow> app_pc option" where
  "ex_call a = (if a = 0x1020 then Some 0x1030 else if a = 0x5020 then Some 0x2030 else None)"

definition ex_sscanf :: "string \<Rightarrow> 32 word option" where
  "ex_sscanf t = (if t = ''2'' then Some 2 else None)"

definition ex_env :: platform where
  "ex_env = \<lparr>linux = True, debug = False, strict = False,
             dr_lookup_module = ex_lookup, dr_symbol_exports = ex_exports,
             call_export = ex_call, dr_sscanf_u = ex_sscanf\<rparr>"

definition ex_state :: client_state where
  "ex_state = \<lparr>verbose = 0, options = \<lparr>logdir = '''', only_from_app = False\<rparr>,
               exe_start = 0x400000, wrap_table = Map.empty, stderr = [], requests = []\<rparr>"

definition ex_filtering :: client_state where
  "ex_filtering = ex_state\<lparr>options := \<lparr>logdir = '''', only_from_app = True\<rparr>\<rparr>"

text \<open>The state after the load event of \<open>N\<close> from \<open>ex_state\<close>: \<open>baz\<close> is wrapped.\<close>

definition ex_N_loaded :: client_state where
  "ex_N_loaded = ex_state\<lparr>wrap_table := [0x2030 \<mapsto> ''baz''],
                          requests := [Wrap_ex 0x2030 ''baz'']\<rparr>"

section \<open>Properties\<close>

lemmas ex_defs = ex_env_def ex_state_def ex_filtering_def ex_N_loaded_def ex_lookup_def
  ex_exports_def ex_call_def ex_sscanf_def ex_exe_def ex_M_def ex_N_def ex_anon_def ex_P_def
  ex_main_def ex_foo_def ex_bar_def ex_dat_def ex_bad_def ex_baz_def ex_sel_def

lemmas lib_entry_defs = lib_entry_def lib_entry_print_def dr_fprintf_def guarded_retaddr_def
  Let_def

lemmas hook_defs = iterate_exports_body_def drwrap_wrap_ex_def drwrap_unwrap_def ASSERT_def
  NOTIFY_def dr_fprintf_def Let_def

lemmas run_defs = event_module_load_def event_module_unload_def iterate_exports_def
  resolve_export_def load_unload_def load_unload_twice_def hook_defs

subsection \<open>The origin filter of \<open>lib_entry\<close>\<close>

text \<open>
  C5. When \<open>only_from_app\<close> is unset, every intercepted call prints exactly one trace
  line, whatever the wrap context says about the return address: the stream after the
  call is the stream before it followed by the one line of the call, and nothing else
  of the state changes.
\<close>

theorem lib_entry_unfiltered_one_line:
  assumes "\<not> only_from_app (options s)"
  shows "lib_entry env cxt nm s
           = s\<lparr>stderr := stderr s @ [Trace_line (trace_line env (drwrap_get_func cxt) nm)]\<rparr>"
  using assms by (simp add: lib_entry_defs)

text \<open>
  C5 at a call of \<open>foo\<close> whose return address cannot be read: the line is printed.
\<close>

theorem lib_entry_unfiltered_one_line_witness:
  "\<not> only_from_app (options ex_state)
   \<and> stderr (lib_entry ex_env \<lparr>drwrap_get_func = 0x1010, drwrap_get_retaddr = None\<rparr>
               ''foo'' ex_state)
       = [Trace_line (''~~~~ M!foo'' @ [CHR 0x0A])]"
proof -
  have h: "\<not> only_from_app (options ex_state)"
    by (simp add: ex_state_def)
  show ?thesis
    using h lib_entry_unfiltered_one_line [OF h, of ex_env
        "\<lparr>drwrap_get_func = 0x1010, drwrap_get_retaddr = None\<rparr>" "''foo''"]
    by (simp add: trace_line_def STDERR_PREFIX_def ex_defs)
qed

text \<open>
  C4. Let \<open>only_from_app\<close> be set, on a platform where the null address lies in no
  module (a \<open>NULL\<close> return address is what the code takes for a read that failed).
  \<^item> A call whose return address is read and lies in a module whose base is
    \<open>exe_start\<close> prints exactly one trace line.
  \<^item> A call whose return address is read and lies in a module with another base leaves
    the state as it is, so prints nothing.
  \<^item> A call whose guarded read of the return address faults leaves the state as it is.
\<close>

theorem lib_entry_origin_filter:
  assumes "only_from_app (options s)" and "dr_lookup_module env NULL = None"
  shows "(drwrap_get_retaddr cxt = Some a
            \<and> dr_lookup_module env a = Some m \<and> start m = exe_start s
          \<longrightarrow> lib_entry env cxt nm s
                = s\<lparr>stderr := stderr s
                       @ [Trace_line (trace_line env (drwrap_get_func cxt) nm)]\<rparr>)
       \<and> (drwrap_get_retaddr cxt = Some a
            \<and> dr_lookup_module env a = Some m \<and> start m \<noteq> exe_start s
          \<longrightarrow> lib_entry env cxt nm s = s)
       \<and> (drwrap_get_retaddr cxt = None \<longrightarrow> lib_entry env cxt nm s = s)"
  using assms by (auto simp add: lib_entry_defs)

text \<open>
  C4 at three calls: \<open>foo\<close> called from inside the executable, \<open>bar\<close> called from
  module \<open>N\<close>, and \<open>foo\<close> called with a return address that cannot be read.
\<close>

theorem lib_entry_origin_filter_witness:
  "only_from_app (options ex_filtering) \<and> dr_lookup_module ex_env NULL = None
   \<and> dr_lookup_module ex_env 0x401000 = Some ex_exe \<and> start ex_exe = exe_start ex_filtering
   \<and> stderr (lib_entry ex_env \<lparr>drwrap_get_func = 0x1010, drwrap_get_retaddr = Some 0x401000\<rparr>
               ''foo'' ex_filtering)
       = [Trace_line (''~~~~ M!foo'' @ [CHR 0x0A])]
   \<and> dr_lookup_module ex_env 0x2040 = Some ex_N \<and> start ex_N \<noteq> exe_start ex_filtering
   \<and> lib_entry ex_env \<lparr>drwrap_get_func = 0x1030, drwrap_get_retaddr = Some 0x2040\<rparr>
        ''bar'' ex_filtering = ex_filtering
   \<and> lib_entry ex_env \<lparr>drwrap_get_func = 0x1010, drwrap_get_retaddr = None\<rparr>
        ''foo'' ex_filtering = ex_filtering"
proof -
  have h: "only_from_app (options ex_filtering)"
    by (simp add: ex_filtering_def ex_state_def)
  have z: "dr_lookup_module ex_env NULL = None"
    and l1: "dr_lookup_module ex_env 0x401000 = Some ex_exe"
    and l2: "dr_lookup_module ex_env 0x2040 = Some ex_N"
    by (simp_all add: ex_env_def ex_lookup_def)
  have b1: "start ex_exe = exe_start ex_filtering"
    and b2: "start ex_N \<noteq> exe_start ex_filtering"
    by (simp_all add: ex_defs)
  show ?thesis
    using h z l1 l2 b1 b2
      lib_entry_origin_filter [OF h z, of
        "\<lparr>drwrap_get_func = 0x1010, drwrap_get_retaddr = Some 0x401000\<rparr>" "0x401000"
        ex_exe "''foo''"]
      lib_entry_origin_filter [OF h z, of
        "\<lparr>drwrap_get_func = 0x1030, drwrap_get_retaddr = Some 0x2040\<rparr>" "0x2040"
        ex_N "''bar''"]
      lib_entry_origin_filter [OF h z, of
        "\<lparr>drwrap_get_func = 0x1010, drwrap_get_retaddr = None\<rparr>" "0x401000" ex_exe
        "''foo''"]
    by (simp add: trace_line_def STDERR_PREFIX_def ex_defs)
qed

text \<open>
  C10. With \<open>only_from_app\<close> set, when the guarded read leaves a return address that is
  not \<open>NULL\<close> and \<open>dr_lookup_module\<close> finds no module for it, \<open>lib_entry\<close> falls through
  the filter and prints exactly one trace line.
\<close>

theorem lib_entry_no_owner_admitted:
  assumes "only_from_app (options s)"
    and "guarded_retaddr cxt \<noteq> NULL"
    and "dr_lookup_module env (guarded_retaddr cxt) = None"
  shows "lib_entry env cxt nm s
           = s\<lparr>stderr := stderr s @ [Trace_line (trace_line env (drwrap_get_func cxt) nm)]\<rparr>"
  using assms by (simp add: lib_entry_def lib_entry_print_def dr_fprintf_def)

text \<open>
  C10 at a call of \<open>foo\<close> from the address \<open>0x7000\<close>, which no module contains.
\<close>

theorem lib_entry_no_owner_admitted_witness:
  "only_from_app (options ex_filtering)
   \<and> guarded_retaddr \<lparr>drwrap_get_func = 0x1010, drwrap_get_retaddr = Some 0x7000\<rparr> \<noteq> NULL
   \<and> dr_lookup_module ex_env
        (guarded_retaddr \<lparr>drwrap_get_func = 0x1010, drwrap_get_retaddr = Some 0x7000\<rparr>) = None
   \<and> stderr (lib_entry ex_env \<lparr>drwrap_get_func = 0x1010, drwrap_get_retaddr = Some 0x7000\<rparr>
               ''foo'' ex_filtering)
       = [Trace_line (''~~~~ M!foo'' @ [CHR 0x0A])]"
proof -
  let ?cxt = "\<lparr>drwrap_get_func = 0x1010, drwrap_get_retaddr = Some 0x7000\<rparr>"
  have h1: "only_from_app (options ex_filtering)"
    by (simp add: ex_filtering_def ex_state_def)
  have h2: "guarded_retaddr ?cxt \<noteq> NULL"
    by (simp add: guarded_retaddr_def)
  have h3: "dr_lookup_module ex_env (guarded_retaddr ?cxt) = None"
    by (simp add: guarded_retaddr_def ex_env_def ex_lookup_def)
  show ?thesis
    using h1 h2 h3 lib_entry_no_owner_admitted [OF h1 h2 h3, of "''foo''"]
    by (simp add: trace_line_def STDERR_PREFIX_def ex_defs)
qed

text \<open>
  C1, as the spec has it, fails: with \<open>only_from_app\<close> set, a call of \<open>foo\<close> whose
  return address \<open>0x7000\<close> is read and lies in no module is not suppressed. The stream
  after the call differs from the stream before it.
\<close>

theorem lib_entry_no_owner_suppressed_counterexample:
  "only_from_app (options ex_filtering)
   \<and> drwrap_get_retaddr \<lparr>drwrap_get_func = 0x1010, drwrap_get_retaddr = Some 0x7000\<rparr>
       = Some 0x7000
   \<and> dr_lookup_module ex_env 0x7000 = None
   \<and> stderr (lib_entry ex_env \<lparr>drwrap_get_func = 0x1010, drwrap_get_retaddr = Some 0x7000\<rparr>
               ''foo'' ex_filtering)
       \<noteq> stderr ex_filtering"
  by (simp add: lib_entry_defs ex_defs)

text \<open>
  C1, amended. With \<open>only_from_app\<close> set and a return address that is read and is not
  \<open>NULL\<close>, the call is suppressed (prints nothing) exactly when \<open>dr_lookup_module\<close> finds
  a module for the return address and the base of that module differs from
  \<open>exe_start\<close>. When no module is found the call is admitted: exactly one trace line
  is printed.
\<close>

theorem lib_entry_suppressed_iff:
  assumes "only_from_app (options s)"
    and "drwrap_get_retaddr cxt = Some a"
    and "a \<noteq> NULL"
  shows "((stderr (lib_entry env cxt nm s) = stderr s)
            = (\<exists>m. dr_lookup_module env a = Some m \<and> start m \<noteq> exe_start s))
         \<and> (dr_lookup_module env a = None \<longrightarrow>
              stderr (lib_entry env cxt nm s)
                = stderr s @ [Trace_line (trace_line env (drwrap_get_func cxt) nm)])"
  using assms by (auto simp add: lib_entry_defs split: option.splits)

text \<open>
  C1, amended, at two calls of \<open>baz\<close>: from \<open>0x7000\<close>, in no module, the line is
  printed; from \<open>0x1234\<close>, inside module \<open>M\<close>, nothing is.
\<close>

theorem lib_entry_suppressed_iff_witness:
  "only_from_app (options ex_filtering)
   \<and> dr_lookup_module ex_env 0x7000 = None
   \<and> stderr (lib_entry ex_env \<lparr>drwrap_get_func = 0x2030, drwrap_get_retaddr = Some 0x7000\<rparr>
               ''baz'' ex_filtering)
       = [Trace_line (''~~~~ N!baz'' @ [CHR 0x0A])]
   \<and> dr_lookup_module ex_env 0x1234 = Some ex_M \<and> start ex_M \<noteq> exe_start ex_filtering
   \<and> stderr (lib_entry ex_env \<lparr>drwrap_get_func = 0x2030, drwrap_get_retaddr = Some 0x1234\<rparr>
               ''baz'' ex_filtering)
       = stderr ex_filtering"
proof -
  let ?c1 = "\<lparr>drwrap_get_func = 0x2030, drwrap_get_retaddr = Some 0x7000\<rparr>"
  let ?c2 = "\<lparr>drwrap_get_func = 0x2030, drwrap_get_retaddr = Some 0x1234\<rparr>"
  have h: "only_from_app (options ex_filtering)"
    by (simp add: ex_filtering_def ex_state_def)
  have r1: "drwrap_get_retaddr ?c1 = Some 0x7000" and r2: "drwrap_get_retaddr ?c2 = Some 0x1234"
    by simp_all
  have n1: "(0x7000 :: app_pc) \<noteq> NULL" and n2: "(0x1234 :: app_pc) \<noteq> NULL"
    by simp_all
  have l1: "dr_lookup_module ex_env 0x7000 = None"
    and l2: "dr_lookup_module ex_env 0x1234 = Some ex_M"
    by (simp_all add: ex_env_def ex_lookup_def)
  have b2: "start ex_M \<noteq> exe_start ex_filtering"
    by (simp add: ex_defs)
  show ?thesis
    using h l1 l2 b2
      lib_entry_suppressed_iff [OF h r1 n1, of ex_env "''baz''"]
      lib_entry_suppressed_iff [OF h r2 n2, of ex_env "''baz''"]
    by (simp add: trace_line_def STDERR_PREFIX_def ex_defs)
qed

subsection \<open>The format of the trace line\<close>





subsection \<open>The main executable\<close>

text \<open>
  C2. For a module whose base is \<open>exe_start\<close>, the load event and the unload event
  leave the whole state as it is: the wrap table is unchanged, and no request to wrap,
  to unwrap or to call an export is made, whatever the export table of the module holds.
\<close>

theorem exe_never_hooked:
  assumes "start info = exe_start s"
  shows "event_module_load env info loaded s = Inr s \<and> event_module_unload env info s = Inr s"
  using assms by (simp add: event_module_load_def event_module_unload_def)

text \<open>
  C2 at the executable of the concrete platform, which exports \<open>main\<close>, in a state
  where \<open>baz\<close> is wrapped.
\<close>

theorem exe_never_hooked_witness:
  "start ex_exe = exe_start ex_N_loaded
   \<and> dr_symbol_exports ex_env (handle ex_exe) = [ex_main]
   \<and> event_module_load ex_env ex_exe True ex_N_loaded = Inr ex_N_loaded
   \<and> event_module_unload ex_env ex_exe ex_N_loaded = Inr ex_N_loaded"
proof -
  have h: "start ex_exe = exe_start ex_N_loaded"
    by (simp add: ex_defs)
  have e: "dr_symbol_exports ex_env (handle ex_exe) = [ex_main]"
    by (simp add: ex_env_def ex_exports_def ex_exe_def)
  show ?thesis
    using h e exe_never_hooked [OF h, of ex_env True] by simp
qed

subsection \<open>Options\<close>

text \<open>
  C9. When the loop of \<open>options_init\<close> reads a token that is none of \<open>-logdir\<close>,
  \<open>-only_from_app\<close> and \<open>-verbose\<close> (a token taken as the argument of \<open>-logdir\<close> or
  \<open>-verbose\<close> is not read by the loop), it reports the token on the diagnostic stream,
  whatever the verbosity. In a strict build it then aborts with the usage error
  \<open>invalid option\<close>; in any other build it goes on with the tokens that follow.
\<close>

theorem unrecognized_option_reported:
  assumes "token \<noteq> ''-logdir''" and "token \<noteq> ''-only_from_app''" and "token \<noteq> ''-verbose''"
  shows "options_init env (token # rest) s =
           (if strict env
            then Inl (Usage_error ''invalid option'',
                      s\<lparr>stderr := stderr s @ [Note_unrecognized token]\<rparr>)
            else options_init env rest (s\<lparr>stderr := stderr s @ [Note_unrecognized token]\<rparr>))"
  using assms by (simp add: USAGE_CHECK_def NOTIFY_def dr_fprintf_def)

text \<open>
  C9 at the option string \<open>-verbose 2 -bogus -only_from_app\<close>: a strict build aborts at
  \<open>-bogus\<close> after reporting it, another build reports it and sets \<open>only_from_app\<close>.
\<close>

theorem unrecognized_option_reported_witness:
  "''-bogus'' \<noteq> ''-logdir'' \<and> ''-bogus'' \<noteq> ''-only_from_app'' \<and> ''-bogus'' \<noteq> ''-verbose''
   \<and> options_init (ex_env\<lparr>strict := True\<rparr>)
        [''-verbose'', ''2'', ''-bogus'', ''-only_from_app''] ex_state
       = Inl (Usage_error ''invalid option'',
              ex_state\<lparr>verbose := 2, stderr := [Note_unrecognized ''-bogus'']\<rparr>)
   \<and> options_init ex_env [''-verbose'', ''2'', ''-bogus'', ''-only_from_app''] ex_state
       = Inr (ex_filtering\<lparr>verbose := 2, stderr := [Note_unrecognized ''-bogus'']\<rparr>)"
proof -
  have h1: "''-bogus'' \<noteq> ''-logdir''" and h2: "''-bogus'' \<noteq> ''-only_from_app''"
    and h3: "''-bogus'' \<noteq> ''-verbose''"
    by simp_all
  show ?thesis
    using h1 h2 h3
      unrecognized_option_reported [OF h1 h2 h3, of "ex_env\<lparr>strict := True\<rparr>"
        "[''-only_from_app'']" "ex_state\<lparr>verbose := 2\<rparr>"]
      unrecognized_option_reported [OF h1 h2 h3, of ex_env "[''-only_from_app'']"
        "ex_state\<lparr>verbose := 2\<rparr>"]
    by (simp add: USAGE_CHECK_def NOTIFY_def dr_fprintf_def ex_defs)
qed

subsection \<open>One pass over an export table\<close>

lemma loop_append:
  "iterate_exports_loop env info add (xs @ ys) s =
     (case iterate_exports_loop env info add xs s of
        Inl e \<Rightarrow> Inl e
      | Inr s' \<Rightarrow> iterate_exports_loop env info add ys s')"
  by (induction xs arbitrary: s) (simp_all split: sum.splits)

lemma body_data_symbol:
  "\<not> is_code symb \<Longrightarrow> \<not> is_indirect_code symb \<Longrightarrow>
   iterate_exports_body env info add symb s = Inr s"
  by (simp add: iterate_exports_body_def resolve_export_def)

text \<open>
  C8. An export marked neither as direct code nor as indirect code is skipped: the loop
  body leaves the whole state as it is for it (no export is called, no request to wrap
  or to unwrap is made, nothing is printed), and a pass over a table that holds it does
  exactly what the pass over the table without it does.
\<close>

theorem data_symbol_skipped:
  assumes "\<not> is_code symb" and "\<not> is_indirect_code symb"
  shows "iterate_exports_body env info add symb s = Inr s
         \<and> iterate_exports_loop env info add (xs @ symb # ys) s
             = iterate_exports_loop env info add (xs @ ys) s"
  using assms by (simp add: loop_append body_data_symbol split: sum.splits)

text \<open>
  C8 at the data symbol \<open>dat\<close> of module \<open>M\<close>: the pass over the table of \<open>M\<close> makes
  four requests, none of them about \<open>dat\<close>.
\<close>

theorem data_symbol_skipped_witness:
  "\<not> is_code ex_dat \<and> \<not> is_indirect_code ex_dat
   \<and> iterate_exports_body ex_env ex_M True ex_dat ex_state = Inr ex_state
   \<and> iterate_exports_loop ex_env ex_M True ([ex_foo, ex_bad] @ ex_dat # [ex_bar]) ex_state
       = iterate_exports_loop ex_env ex_M True ([ex_foo, ex_bad] @ [ex_bar]) ex_state
   \<and> requests (projr (iterate_exports_loop ex_env ex_M True
                         ([ex_foo, ex_bad] @ ex_dat # [ex_bar]) ex_state))
       = [Wrap_ex 0x1010 ''foo'', Call_export 0x1050, Call_export 0x1020, Wrap_ex 0x1030 ''bar'']"
proof -
  have h1: "\<not> is_code ex_dat" and h2: "\<not> is_indirect_code ex_dat"
    by (simp_all add: ex_dat_def)
  have r: "requests (projr (iterate_exports_loop ex_env ex_M True
                              ([ex_foo, ex_bad] @ [ex_bar]) ex_state))
             = [Wrap_ex 0x1010 ''foo'', Call_export 0x1050, Call_export 0x1020,
                Wrap_ex 0x1030 ''bar'']"
    by (simp add: run_defs ex_defs)
  show ?thesis
    using h1 h2 r
      data_symbol_skipped [OF h1 h2, of ex_env ex_M True ex_state "[ex_foo, ex_bad]" "[ex_bar]"]
    by simp
qed

text \<open>
  Resolving an export yields \<open>resolved_func\<close> and touches neither the wrap table nor
  \<open>exe_start\<close>.
\<close>

lemma resolve_export_result:
  "\<exists>s1. resolve_export env symb s = (resolved_func env symb, s1)
        \<and> wrap_table s1 = wrap_table s \<and> exe_start s1 = exe_start s"
  by (simp add: resolve_export_def resolved_func_def NOTIFY_def dr_fprintf_def Let_def)

lemma body_hooks_of:
  assumes "wrap_table s = wrap_table t"
  shows "hooks_of (iterate_exports_body env info add symb s)
           = hooks_of (iterate_exports_body env info add symb t)"
proof -
  obtain s1 where s1: "resolve_export env symb s = (resolved_func env symb, s1)"
      "wrap_table s1 = wrap_table s"
    using resolve_export_result by blast
  obtain t1 where t1: "resolve_export env symb t = (resolved_func env symb, t1)"
      "wrap_table t1 = wrap_table t"
    using resolve_export_result by blast
  show ?thesis
  proof (cases "wrap_table t (resolved_func env symb)")
    case None
    with assms s1 t1 show ?thesis
      by (simp add: hook_defs hooks_of_def)
  next
    case (Some d)
    with assms s1 t1 show ?thesis
      by (simp add: hook_defs hooks_of_def)
  qed
qed

lemma hooks_of_Inr:
  "hooks_of r = hooks_of (Inr t) \<Longrightarrow> \<exists>s. r = Inr s \<and> wrap_table s = wrap_table t"
  by (cases r) (auto simp add: hooks_of_def)

lemma hooks_of_Inl: "hooks_of r = hooks_of (Inl e) \<Longrightarrow> \<exists>e'. r = Inl e'"
  by (cases r; cases e) (auto simp add: hooks_of_def)

text \<open>
  What a pass does to the wrap table, and whether it aborts, depends on the state it
  starts from through the wrap table only.
\<close>

lemma loop_hooks_of:
  "wrap_table s = wrap_table t \<Longrightarrow>
   hooks_of (iterate_exports_loop env info add symbs s)
     = hooks_of (iterate_exports_loop env info add symbs t)"
proof (induction symbs arbitrary: s t)
  case Nil
  then show ?case by (simp add: hooks_of_def)
next
  case (Cons symb symbs)
  have eq: "hooks_of (iterate_exports_body env info add symb s)
              = hooks_of (iterate_exports_body env info add symb t)"
    using Cons.prems by (rule body_hooks_of)
  show ?case
  proof (cases "iterate_exports_body env info add symb t")
    case (Inl e)
    with eq obtain e' where "iterate_exports_body env info add symb s = Inl e'"
      using hooks_of_Inl by metis
    with Inl eq show ?thesis by (simp add: hooks_of_def)
  next
    case (Inr t')
    with eq obtain s' where s': "iterate_exports_body env info add symb s = Inr s'"
        "wrap_table s' = wrap_table t'"
      using hooks_of_Inr by metis
    with Inr Cons.IH [of s' t'] show ?thesis by simp
  qed
qed

lemma body_faulting:
  assumes "\<not> is_code symb" and "is_indirect_code symb" and "call_export env (addr symb) = None"
  shows "iterate_exports_body env info add symb s
           = Inr (if linux env
                  then NOTIFY 1 (Note_indirected (name symb) (addr symb) NULL)
                         (s\<lparr>requests := requests s @ [Call_export (addr symb)]\<rparr>)
                  else s)"
  using assms by (simp add: iterate_exports_body_def resolve_export_def Let_def)

text \<open>
  C3. Take an export marked as indirect code (and not as direct code, so that the code
  comes to call it) whose call faults. The loop body does not abort on it: it records
  the call and, under \<open>LINUX\<close>, the \<open>NOTIFY\<close> with \<open>func = NULL\<close>, and makes no request to
  wrap or to unwrap. The pass does not stop there: over a table that holds the export
  it ends with the same wrap table, or the same abort, as over the table without it, so
  every other export is resolved and wrapped, or unwrapped, as usual.
\<close>

theorem faulting_indirect_export_skipped:
  assumes "\<not> is_code symb" and "is_indirect_code symb" and "call_export env (addr symb) = None"
  shows "iterate_exports_body env info add symb s
           = Inr (if linux env
                  then NOTIFY 1 (Note_indirected (name symb) (addr symb) NULL)
                         (s\<lparr>requests := requests s @ [Call_export (addr symb)]\<rparr>)
                  else s)
         \<and> hooks_of (iterate_exports_loop env info add (xs @ symb # ys) s)
             = hooks_of (iterate_exports_loop env info add (xs @ ys) s)"
proof -
  let ?s' = "\<lambda>s. if linux env
                  then NOTIFY 1 (Note_indirected (name symb) (addr symb) NULL)
                         (s\<lparr>requests := requests s @ [Call_export (addr symb)]\<rparr>)
                  else s"
  have wt: "wrap_table (?s' u) = wrap_table u" for u
    by (simp add: NOTIFY_def dr_fprintf_def)
  have step: "iterate_exports_body env info add symb u = Inr (?s' u)" for u
    using assms by (rule body_faulting)
  have "hooks_of (iterate_exports_loop env info add (symb # ys) u)
          = hooks_of (iterate_exports_loop env info add ys u)" for u
    using loop_hooks_of [OF wt, of env info add ys u] by (simp add: step)
  then show ?thesis
    using step by (simp add: loop_append split: sum.splits)
qed

text \<open>
  C3 at the export \<open>bad\<close> of module \<open>M\<close>, whose call faults: the pass over the table of
  \<open>M\<close> wraps \<open>foo\<close> before it and \<open>bar\<close> after it, and nothing at \<open>bad\<close>.
\<close>

theorem faulting_indirect_export_skipped_witness:
  "\<not> is_code ex_bad \<and> is_indirect_code ex_bad \<and> call_export ex_env (addr ex_bad) = None
   \<and> iterate_exports_body ex_env ex_M True ex_bad ex_state
       = Inr (ex_state\<lparr>requests := [Call_export 0x1050]\<rparr>)
   \<and> hooks_of (iterate_exports_loop ex_env ex_M True ([ex_foo] @ ex_bad # [ex_dat, ex_bar])
                 ex_state)
       = Inr [0x1010 \<mapsto> ''foo'', 0x1030 \<mapsto> ''bar'']"
proof -
  have h1: "\<not> is_code ex_bad" and h2: "is_indirect_code ex_bad"
    and h3: "call_export ex_env (addr ex_bad) = None"
    by (simp_all add: ex_bad_def ex_env_def ex_call_def)
  have r: "hooks_of (iterate_exports_loop ex_env ex_M True ([ex_foo] @ [ex_dat, ex_bar]) ex_state)
             = Inr [0x1010 \<mapsto> ''foo'', 0x1030 \<mapsto> ''bar'']"
    by (simp add: run_defs hooks_of_def ex_defs)
  have v: "linux ex_env" and n: "\<not> (1 \<le> verbose ex_state)"
    by (simp_all add: ex_env_def ex_state_def)
  show ?thesis
    using h1 h2 h3 r
      faulting_indirect_export_skipped [OF h1 h2 h3, of ex_M True ex_state "[ex_foo]"
        "[ex_dat, ex_bar]"]
    by (simp add: v n NOTIFY_def) (simp add: ex_bad_def ex_state_def)
qed

subsection \<open>Load and unload, twice\<close>

text \<open>
  C7 does not hold of the code. On the concrete platform, which stays the same
  throughout, load module \<open>N\<close> from the initial state: \<open>baz\<close> is wrapped at \<open>0x2030\<close>.
  Module \<open>P\<close> is not the executable, and its indirect export \<open>sel\<close> resolves to
  \<open>0x2030\<close>. In a release build, load, unload, load and unload of \<open>P\<close> run to the end
  and leave \<open>0x2030\<close> without a hook: the hook of \<open>baz\<close>, installed before the first
  load of \<open>P\<close> while \<open>N\<close> stays loaded, is gone. In a debug build the first load of \<open>P\<close>
  aborts on the code's own \<open>ASSERT(ok, "wrap request failed")\<close>.
\<close>

theorem load_unload_twice_removes_other_hook:
  "event_module_load ex_env ex_N True ex_state = Inr ex_N_loaded
   \<and> start ex_P \<noteq> exe_start ex_N_loaded
   \<and> wrap_table ex_N_loaded 0x2030 = Some ''baz''
   \<and> \<not> isl (load_unload_twice ex_env ex_env ex_env ex_env ex_P ex_N_loaded)
   \<and> wrap_table (projr (load_unload_twice ex_env ex_env ex_env ex_env ex_P ex_N_loaded)) 0x2030
       = None
   \<and> event_module_load (ex_env\<lparr>debug := True\<rparr>) ex_P True ex_N_loaded
       = Inl (Assert_failed ''wrap request failed'',
              ex_N_loaded\<lparr>requests := [Wrap_ex 0x2030 ''baz'', Call_export 0x5020,
                                       Wrap_ex 0x2030 ''sel'']\<rparr>)"
  by (simp add: run_defs ex_defs)

end
